theory Spec2Isabelle
  imports Main
begin

section \<open>JavaScript values\<close>

text \<open>
  The values that flow through \<^verbatim>\<open>MojoSpy.js\<close>.  Objects and functions are references:
  two of them are identical exactly when they are the same reference.  A function is
  either a function of the test author (\<open>User n\<close>) or the closure \<^verbatim>\<open>spy\<close> that the
  constructor creates (\<open>SpyFn\<close>).  Finite numbers are abstracted to integers; \<open>JNaN\<close> is
  kept apart because it is the one value that is not \<^verbatim>\<open>===\<close> to itself.  \<open>JError\<close>
  stands for a built-in error object, by the name of its class.
\<close>

datatype fn = User nat | SpyFn

datatype jsval =
    JUndefined
  | JNull
  | JBool bool
  | JNum int
  | JNaN
  | JStr string
  | JObj nat
  | JFun fn
  | JError string

text \<open>\<^verbatim>\<open>typeof v\<close>.\<close>

fun typeof :: "jsval \<Rightarrow> string" where
  "typeof JUndefined = ''undefined''"
| "typeof JNull = ''object''"
| "typeof (JBool b) = ''boolean''"
| "typeof (JNum n) = ''number''"
| "typeof JNaN = ''number''"
| "typeof (JStr s) = ''string''"
| "typeof (JObj r) = ''object''"
| "typeof (JFun f) = ''function''"
| "typeof (JError c) = ''object''"

text \<open>The conversion to boolean that \<^verbatim>\<open>if (v)\<close> and \<^verbatim>\<open>a && b\<close> perform.\<close>

fun truthy :: "jsval \<Rightarrow> bool" where
  "truthy JUndefined = False"
| "truthy JNull = False"
| "truthy (JBool b) = b"
| "truthy (JNum n) = (n \<noteq> 0)"
| "truthy JNaN = False"
| "truthy (JStr s) = (s \<noteq> [])"
| "truthy (JObj r) = True"
| "truthy (JFun f) = True"
| "truthy (JError c) = True"

text \<open>\<^verbatim>\<open>a === b\<close>: identity of references, equality of primitives, except for NaN.\<close>

definition strict_eq :: "jsval \<Rightarrow> jsval \<Rightarrow> bool" where
  "strict_eq a b = (a = b \<and> a \<noteq> JNaN)"

text \<open>How a call ends: it returns a value or it throws one.\<close>

datatype completion = Normal jsval | Throw jsval

section \<open>The state of the program\<close>

text \<open>
  The heap holds the own data properties of the plain objects: \<open>h r k\<close> is the property
  \<open>k\<close> of the object \<open>r\<close>, \<open>None\<close> when the object has no such property.
\<close>

type_synonym heap = "nat \<Rightarrow> string \<Rightarrow> jsval option"

text \<open>\<^verbatim>\<open>object[methodName]\<close>: a missing property reads as \<^verbatim>\<open>undefined\<close>.\<close>

definition get_member :: "heap \<Rightarrow> nat \<Rightarrow> string \<Rightarrow> jsval" where
  "get_member h r k = (case h r k of None \<Rightarrow> JUndefined | Some v \<Rightarrow> v)"

text \<open>\<^verbatim>\<open>object[methodName] = v\<close>.\<close>

definition set_member :: "heap \<Rightarrow> nat \<Rightarrow> string \<Rightarrow> jsval \<Rightarrow> heap" where
  "set_member h r k v = h(r := (h r)(k := Some v))"

text \<open>
  The fields of a \<^verbatim>\<open>MojoSpy\<close> instance (\<^verbatim>\<open>this\<close> in the constructor and in the
  prototype's methods, \<^verbatim>\<open>self\<close> in the closure).  \<open>object\<close> is a reference to a plain
  object and \<open>methodName\<close> a string, as the constructor's documentation types them.
  \<open>isRecording\<close> and \<open>callThru\<close> hold any value, because the closure tests them for
  truthiness and \<open>callThru\<close> is set by plain assignment; a field that was never assigned
  or was deleted reads as \<open>JUndefined\<close>.  \<open>callHistory\<close> is \<open>None\<close> while the instance has
  no such field, \<open>Some\<close> of the array of argument arrays otherwise.
\<close>

record spy_object =
  object :: nat
  methodName :: string
  "method" :: jsval
  isRecording :: jsval
  callThru :: jsval
  callHistory :: "jsval list list option"

text \<open>
  One call made through \<^verbatim>\<open>Function.prototype.apply\<close>: the callee, the receiver and
  the argument list.
\<close>

type_synonym call_event = "fn \<times> jsval \<times> jsval list"

text \<open>
  The whole state: the heap, the instance, the local variable \<^verbatim>\<open>method\<close> of the
  constructor, which the closure \<^verbatim>\<open>spy\<close> captures and nothing ever reassigns
  (\<open>closure_method\<close>), and the list of the calls made through \<^verbatim>\<open>apply\<close> so far, oldest
  first (\<open>calls\<close>, which is an observer's log and not a variable of the program).
\<close>

record state =
  heap :: heap
  self :: spy_object
  closure_method :: jsval
  calls :: "call_event list"

text \<open>
  The functions of the test author are a parameter of the model: \<open>B n this args st\<close> is
  what the body of the function \<open>User n\<close> does when it is called with the receiver
  \<open>this\<close> and the arguments \<open>args\<close> in the state \<open>st\<close>: how it ends and the state it
  leaves.  A body may change anything in the state; a body that never ends is outside the
  model.
\<close>

type_synonym bodies = "nat \<Rightarrow> jsval \<Rightarrow> jsval list \<Rightarrow> state \<Rightarrow> completion \<times> state"

section \<open>The prototype's methods\<close>

text \<open>\<^verbatim>\<open>on: function () { this.isRecording = true; }\<close>\<close>

definition on :: "spy_object \<Rightarrow> spy_object" where
  "on this = this\<lparr>isRecording := JBool True\<rparr>"

text \<open>\<^verbatim>\<open>off: function () { this.isRecording = false; }\<close>\<close>

definition off :: "spy_object \<Rightarrow> spy_object" where
  "off this = this\<lparr>isRecording := JBool False\<rparr>"

text \<open>\<^verbatim>\<open>clear: function () { this.callHistory = []; }\<close>\<close>

definition clear :: "spy_object \<Rightarrow> spy_object" where
  "clear this = this\<lparr>callHistory := Some []\<rparr>"

text \<open>\<^verbatim>\<open>reset: function () { this.on(); this.callThru = false; this.clear(); }\<close>\<close>

definition reset :: "spy_object \<Rightarrow> spy_object" where
  "reset this = clear ((on this)\<lparr>callThru := JBool False\<rparr>)"

text \<open>
  \<^verbatim>\<open>retire\<close>: when the three fields are truthy, the method is put back into the
  object and \<^verbatim>\<open>this.method\<close> becomes \<^verbatim>\<open>null\<close>; otherwise nothing happens.
\<close>

definition retire :: "state \<Rightarrow> state" where
  "retire st =
     (let this = self st in
      if truthy (JObj (object this)) \<and> truthy (JStr (methodName this)) \<and> truthy (method this)
      then st\<lparr>heap := set_member (heap st) (object this) (methodName this) (method this),
              self := this\<lparr>method := JNull\<rparr>\<rparr>
      else st)"

text \<open>\<^verbatim>\<open>xs[i]\<close> on an array: \<^verbatim>\<open>undefined\<close> beyond the end.\<close>

definition index :: "jsval list \<Rightarrow> nat \<Rightarrow> jsval" where
  "index xs i = (if i < length xs then xs ! i else JUndefined)"

text \<open>
  The loop of the callback in \<^verbatim>\<open>wasCalled\<close>, from the index \<open>i\<close> on:
  \<^verbatim>\<open>for (; i < args.length; ++i) { if (callArgs[i] !== args[i]) return false; } return true;\<close>
\<close>

function args_loop :: "jsval list \<Rightarrow> jsval list \<Rightarrow> nat \<Rightarrow> jsval" where
  "args_loop callArgs args i =
     (if i < length args
      then (if \<not> strict_eq (index callArgs i) (index args i) then JBool False
            else args_loop callArgs args (i + 1))
      else JBool True)"
  by pat_completeness auto
termination
  by (relation "measure (\<lambda>(callArgs, args, i). length args - i)") auto

declare args_loop.simps [simp del]

text \<open>
  The callback itself.  It has no \<^verbatim>\<open>return\<close> for an entry of another length, so it
  returns \<^verbatim>\<open>undefined\<close> there.
\<close>

definition match_call :: "jsval list \<Rightarrow> jsval list \<Rightarrow> jsval" where
  "match_call args callArgs =
     (if length callArgs = length args then args_loop callArgs args 0 else JUndefined)"

text \<open>\<^verbatim>\<open>Array.prototype.some\<close>: true at the first element whose result is truthy.\<close>

fun some :: "('a \<Rightarrow> jsval) \<Rightarrow> 'a list \<Rightarrow> bool" where
  "some p [] = False"
| "some p (x # xs) = (if truthy (p x) then True else some p xs)"

text \<open>
  \<^verbatim>\<open>wasCalled\<close>, given its \<^verbatim>\<open>arguments\<close>.  Reading \<^verbatim>\<open>some\<close> or \<^verbatim>\<open>length\<close> of a
  missing \<^verbatim>\<open>callHistory\<close> throws a \<^verbatim>\<open>TypeError\<close>.
\<close>

definition wasCalled :: "jsval list \<Rightarrow> spy_object \<Rightarrow> jsval + bool" where
  "wasCalled arguments this =
     (case callHistory this of
        None \<Rightarrow> Inl (JError ''TypeError'')
      | Some history \<Rightarrow>
          if length arguments \<noteq> 0 then Inr (some (match_call arguments) history)
          else Inr (length history > 0))"

section \<open>The closure \<^verbatim>\<open>spy\<close>\<close>

text \<open>
  \<^verbatim>\<open>if (self.isRecording) { self.callHistory.push(args); }\<close>: \<^verbatim>\<open>push\<close> on a missing
  \<^verbatim>\<open>callHistory\<close> throws a \<^verbatim>\<open>TypeError\<close>.
\<close>

definition record_call :: "jsval list \<Rightarrow> state \<Rightarrow> jsval + state" where
  "record_call args st =
     (if truthy (isRecording (self st))
      then (case callHistory (self st) of
              None \<Rightarrow> Inl (JError ''TypeError'')
            | Some history \<Rightarrow> Inr (st\<lparr>self := (self st)\<lparr>callHistory := Some (history @ [args])\<rparr>\<rparr>))
      else Inr st)"

text \<open>The observer's log gains the call that \<^verbatim>\<open>apply\<close> is about to make.\<close>

definition note_call :: "fn \<Rightarrow> jsval \<Rightarrow> jsval list \<Rightarrow> state \<Rightarrow> state" where
  "note_call f this args st = st\<lparr>calls := calls st @ [(f, this, args)]\<rparr>"

text \<open>
  The closure has no \<^verbatim>\<open>return\<close> statement and no \<^verbatim>\<open>try\<close>: when the callee returns,
  the closure returns \<^verbatim>\<open>undefined\<close>; when the callee throws, so does the closure.
\<close>

fun finish :: "completion \<times> state \<Rightarrow> completion \<times> state" where
  "finish (Normal v, st) = (Normal JUndefined, st)"
| "finish (Throw e, st) = (Throw e, st)"

text \<open>
  The closure, called with the receiver \<open>this\<close> and the arguments \<open>arguments\<close>.  When
  \<^verbatim>\<open>self.callThru\<close> is the closure itself, the closure calls itself; a call that never
  returns is \<open>None\<close>.
\<close>

partial_function (option)
  spy :: "bodies \<Rightarrow> jsval \<Rightarrow> jsval list \<Rightarrow> state \<Rightarrow> (completion \<times> state) option"
where
  "spy B this arguments st =
     (let args = arguments in
      case record_call args st of
        Inl e \<Rightarrow> Some (Throw e, st)
      | Inr st1 \<Rightarrow>
          if truthy (callThru (self st1))
          then (let callThru' = (if typeof (callThru (self st1)) = ''function''
                                 then callThru (self st1) else closure_method st1)
                in case callThru' of
                     JFun (User f) \<Rightarrow> Some (finish (B f this args (note_call (User f) this args st1)))
                   | JFun SpyFn \<Rightarrow>
                       Option.bind (spy B this args (note_call SpyFn this args st1))
                         (\<lambda>r. Some (finish r))
                   | _ \<Rightarrow> Some (Throw (JError ''TypeError''), st1))
          else Some (Normal JUndefined, st1))"

section \<open>The constructor\<close>

text \<open>The value that the constructor throws for a member that is not a function.\<close>

definition NotCallableError :: jsval where
  "NotCallableError = JStr ''Cannot spy on a non-function!''"

text \<open>
  \<^verbatim>\<open>new MojoSpy(object, methodName)\<close> in the heap \<open>h\<close>.  A throw gives the thrown value
  and the heap as it is at the throw; a return gives the state with the new instance.
  Before \<^verbatim>\<open>this.reset()\<close> the instance has no \<^verbatim>\<open>isRecording\<close>, \<^verbatim>\<open>callThru\<close> or
  \<^verbatim>\<open>callHistory\<close>.
\<close>

definition MojoSpy :: "nat \<Rightarrow> string \<Rightarrow> heap \<Rightarrow> (jsval \<times> heap) + state" where
  "MojoSpy obj name h =
     (let method = get_member h obj name in
      if typeof method \<noteq> ''function'' then Inl (NotCallableError, h)
      else (let h1 = set_member h obj name (JFun SpyFn);
                this = \<lparr>object = obj, methodName = name, method = method,
                        isRecording = JUndefined, callThru = JUndefined, callHistory = None\<rparr>
            in Inr \<lparr>heap = h1, self = reset this, closure_method = method, calls = []\<rparr>))"

section \<open>Call sites and the test author's operations\<close>

text \<open>
  \<^verbatim>\<open>object[methodName](...)\<close> at a call site: the member is read and called with the
  object as the receiver.  Calling a value that is not a function throws a
  \<^verbatim>\<open>TypeError\<close>.
\<close>

definition call_member ::
  "bodies \<Rightarrow> nat \<Rightarrow> string \<Rightarrow> jsval list \<Rightarrow> state \<Rightarrow> (completion \<times> state) option" where
  "call_member B obj name args st =
     (case get_member (heap st) obj name of
        JFun SpyFn \<Rightarrow> spy B (JObj obj) args st
      | JFun (User f) \<Rightarrow> Some (B f (JObj obj) args st)
      | _ \<Rightarrow> Some (Throw (JError ''TypeError''), st))"

text \<open>
  What a test does with a spy, one operation at a time: a call that reaches the closure
  (with its receiver and arguments), the prototype's methods, and the assignment
  \<^verbatim>\<open>spy.callThru = v\<close>.
\<close>

datatype op =
    Invoke jsval "jsval list"
  | SpyOn
  | SpyOff
  | SpyClear
  | SpyReset
  | SetCallThru jsval
  | SpyRetire

fun step :: "bodies \<Rightarrow> op \<Rightarrow> state \<Rightarrow> state option" where
  "step B (Invoke this args) st = map_option snd (spy B this args st)"
| "step B SpyOn st = Some (st\<lparr>self := on (self st)\<rparr>)"
| "step B SpyOff st = Some (st\<lparr>self := off (self st)\<rparr>)"
| "step B SpyClear st = Some (st\<lparr>self := clear (self st)\<rparr>)"
| "step B SpyReset st = Some (st\<lparr>self := reset (self st)\<rparr>)"
| "step B (SetCallThru v) st = Some (st\<lparr>self := (self st)\<lparr>callThru := v\<rparr>\<rparr>)"
| "step B SpyRetire st = Some (retire st)"

fun run :: "bodies \<Rightarrow> op list \<Rightarrow> state \<Rightarrow> state option" where
  "run B [] st = Some st"
| "run B (x # xs) st = (case step B x st of None \<Rightarrow> None | Some st1 \<Rightarrow> run B xs st1)"

text \<open>
  The history as the specification words it, to be compared with what the code
  computes: one more entry, the argument list, for each intercepted call made while
  recording is on; nothing for a call made while recording is off; the empty history
  after a clear or a reset, which also turns recording on.
\<close>

fun spec_callHistory :: "bool \<Rightarrow> jsval list list \<Rightarrow> op list \<Rightarrow> jsval list list" where
  "spec_callHistory recording history [] = history"
| "spec_callHistory recording history (Invoke this args # xs) =
     spec_callHistory recording (if recording then history @ [args] else history) xs"
| "spec_callHistory recording history (SpyOn # xs) = spec_callHistory True history xs"
| "spec_callHistory recording history (SpyOff # xs) = spec_callHistory False history xs"
| "spec_callHistory recording history (SpyClear # xs) = spec_callHistory recording [] xs"
| "spec_callHistory recording history (SpyReset # xs) = spec_callHistory True [] xs"
| "spec_callHistory recording history (SetCallThru v # xs) = spec_callHistory recording history xs"
| "spec_callHistory recording history (SpyRetire # xs) = spec_callHistory recording history xs"

text \<open>
  Functions of the test author that leave the instance as they found it: when such a
  function ends, the fields of the instance and the closure's \<^verbatim>\<open>method\<close> are what they
  were when it was called.
\<close>

definition leaves_spy_alone :: "bodies \<Rightarrow> bool" where
  "leaves_spy_alone B =
     (\<forall>n this args st. self (snd (B n this args st)) = self st
        \<and> closure_method (snd (B n this args st)) = closure_method st)"

section \<open>A concrete test\<close>

text \<open>
  The object \<^verbatim>\<open>{ method: func }\<close> of the test suite, at the reference 0, with
  \<^verbatim>\<open>func\<close> the function \<open>User 0\<close>.
\<close>

definition test_heap :: heap where
  "test_heap = (\<lambda>r k. if r = 0 \<and> k = ''method'' then Some (JFun (User 0)) else None)"

text \<open>
  Two functions: \<open>User 0\<close> stores its first argument in the property \<^verbatim>\<open>seen\<close> of the
  object 1 and returns 7; every other function stores its receiver in the property
  \<^verbatim>\<open>mocked\<close> of the object 1 and throws the string \<^verbatim>\<open>boom\<close>.
\<close>

definition test_bodies :: bodies where
  "test_bodies n this args st =
     (if n = 0 then (Normal (JNum 7), st\<lparr>heap := set_member (heap st) 1 ''seen'' (index args 0)\<rparr>)
      else (Throw (JStr ''boom''), st\<lparr>heap := set_member (heap st) 1 ''mocked'' this\<rparr>))"

text \<open>The state right after \<^verbatim>\<open>new MojoSpy(obj, 'method')\<close> in that heap.\<close>

definition test_state :: state where
  "test_state =
     \<lparr>heap = set_member test_heap 0 ''method'' (JFun SpyFn),
      self = \<lparr>object = 0, methodName = ''method'', method = JFun (User 0),
               isRecording = JBool True, callThru = JBool False, callHistory = Some []\<rparr>,
      closure_method = JFun (User 0), calls = []\<rparr>"

text \<open>A test that switches recording and the forwarding while it calls the member.\<close>

definition test_ops :: "op list" where
  "test_ops = [Invoke (JObj 0) [JNum 1, JNum 2], SpyOff, Invoke (JObj 0) [JNum 3], SpyOn,
               SetCallThru (JBool True), Invoke JUndefined [], SetCallThru (JFun (User 1)),
               Invoke (JObj 0) [JNum 4], SpyRetire]"

text \<open>A test that clears and resets the history.\<close>

definition test_ops_clearing :: "op list" where
  "test_ops_clearing = [Invoke (JObj 0) [JNum 1], SpyClear, SpyOff, Invoke (JObj 0) [JNum 2],
                        SpyReset, Invoke (JObj 0) [JStr ''a'', JNull]]"

text \<open>The instance after four recorded calls.\<close>

definition test_this :: spy_object where
  "test_this = (self test_state)\<lparr>callHistory :=
      Some [[JNum 1, JNum 2, JNum 3], [JNum 4, JNum 5], [], [JNaN]]\<rparr>"

text \<open>The object \<^verbatim>\<open>{ '': func }\<close>, whose method is named by the empty string.\<close>

definition empty_name_heap :: heap where
  "empty_name_heap = (\<lambda>r k. if r = 0 \<and> k = [] then Some (JFun (User 0)) else None)"

section \<open>Facts about the closure\<close>

lemma typeof_function: "typeof v = ''function'' \<longleftrightarrow> (\<exists>f. v = JFun f)"
  by (cases v) auto

lemma snd_finish: "snd (finish p) = snd p"
  by (cases p rule: finish.cases) simp_all

lemma record_call_callThru:
  "record_call args st = Inr st1 \<Longrightarrow> callThru (self st1) = callThru (self st)"
  by (auto simp: record_call_def split: if_splits option.splits)

lemma record_call_closure:
  "record_call args st = Inr st1 \<Longrightarrow> closure_method st1 = closure_method st"
  by (auto simp: record_call_def split: if_splits option.splits)

lemma record_call_calls:
  "record_call args st = Inr st1 \<Longrightarrow> calls st1 = calls st"
  by (auto simp: record_call_def split: if_splits option.splits)

lemma record_call_history:
  "callHistory (self st) = Some h \<Longrightarrow>
   record_call args st =
     Inr (st\<lparr>self := (self st)\<lparr>callHistory :=
            Some (if truthy (isRecording (self st)) then h @ [args] else h)\<rparr>\<rparr>)"
  by (simp add: record_call_def)

lemma spy_throws_at_push:
  "record_call args st = Inl e \<Longrightarrow> spy B this args st = Some (Throw e, st)"
  by (subst spy.simps) simp

lemma spy_silent:
  "record_call args st = Inr st1 \<Longrightarrow> \<not> truthy (callThru (self st1)) \<Longrightarrow>
   spy B this args st = Some (Normal JUndefined, st1)"
  by (subst spy.simps) simp

lemma spy_calls_user:
  "record_call args st = Inr st1 \<Longrightarrow> truthy (callThru (self st1)) \<Longrightarrow>
   (if typeof (callThru (self st1)) = ''function'' then callThru (self st1)
    else closure_method st1) = JFun (User f) \<Longrightarrow>
   spy B this args st = Some (finish (B f this args (note_call (User f) this args st1)))"
  by (subst spy.simps) (simp add: Let_def)

lemma spy_calls_itself:
  "record_call args st = Inr st1 \<Longrightarrow> truthy (callThru (self st1)) \<Longrightarrow>
   (if typeof (callThru (self st1)) = ''function'' then callThru (self st1)
    else closure_method st1) = JFun SpyFn \<Longrightarrow>
   spy B this args st =
     Option.bind (spy B this args (note_call SpyFn this args st1)) (\<lambda>r. Some (finish r))"
  by (subst spy.simps) (simp add: Let_def)

lemma spy_no_callee:
  "record_call args st = Inr st1 \<Longrightarrow> truthy (callThru (self st1)) \<Longrightarrow>
   typeof (callThru (self st1)) \<noteq> ''function'' \<Longrightarrow>
   typeof (closure_method st1) \<noteq> ''function'' \<Longrightarrow>
   spy B this args st = Some (Throw (JError ''TypeError''), st1)"
  by (subst spy.simps) (cases "closure_method st1"; simp add: Let_def)

text \<open>
  One intercepted call, when the functions that the closure may call leave the instance
  alone and the closure is not its own callee.
\<close>

lemma spy_history_step:
  assumes fr: "leaves_spy_alone B"
    and c: "callThru (self st) \<noteq> JFun SpyFn" and m: "closure_method st \<noteq> JFun SpyFn"
    and h: "callHistory (self st) = Some h"
  shows "\<exists>r st'. spy B this args st = Some (r, st')
           \<and> self st' = (self st)\<lparr>callHistory :=
                 Some (if truthy (isRecording (self st)) then h @ [args] else h)\<rparr>
           \<and> closure_method st' = closure_method st"
proof -
  define st1 where "st1 = st\<lparr>self := (self st)\<lparr>callHistory :=
            Some (if truthy (isRecording (self st)) then h @ [args] else h)\<rparr>\<rparr>"
  have rc: "record_call args st = Inr st1"
    unfolding st1_def by (rule record_call_history [OF h])
  have c1: "callThru (self st1) = callThru (self st)"
    and m1: "closure_method st1 = closure_method st"
    by (simp_all add: st1_def)
  show ?thesis
  proof (cases "truthy (callThru (self st1))")
    case False
    from spy_silent [OF rc False] show ?thesis by (simp add: st1_def)
  next
    case True
    let ?callee = "if typeof (callThru (self st1)) = ''function'' then callThru (self st1)
                   else closure_method st1"
    show ?thesis
    proof (cases "typeof ?callee = ''function''")
      case False
      then have "typeof (callThru (self st1)) \<noteq> ''function''"
        "typeof (closure_method st1) \<noteq> ''function''"
        by (auto split: if_splits)
      from spy_no_callee [OF rc True this] show ?thesis by (simp add: st1_def)
    next
      case fn: True
      then obtain g where g: "?callee = JFun g" by (auto simp: typeof_function)
      with c m c1 m1 have "g \<noteq> SpyFn" by (auto split: if_splits)
      then obtain f where "g = User f" by (cases g) auto
      with g have callee: "?callee = JFun (User f)" by simp
      let ?p = "B f this args (note_call (User f) this args st1)"
      have eq: "spy B this args st = Some (finish ?p)"
        by (rule spy_calls_user [OF rc True callee])
      from fr have "self (snd ?p) = self (note_call (User f) this args st1)"
        "closure_method (snd ?p) = closure_method (note_call (User f) this args st1)"
        unfolding leaves_spy_alone_def by blast+
      then have s: "self (snd (finish ?p)) = self st1"
        and cm: "closure_method (snd (finish ?p)) = closure_method st1"
        by (simp_all add: note_call_def snd_finish)
      obtain r st' where p: "finish ?p = (r, st')" by (cases "finish ?p")
      from s cm p have "self st' = self st1" "closure_method st' = closure_method st1"
        by simp_all
      then have "self st' = (self st)\<lparr>callHistory :=
                 Some (if truthy (isRecording (self st)) then h @ [args] else h)\<rparr>"
        "closure_method st' = closure_method st"
        by (simp_all add: st1_def)
      with eq p show ?thesis by simp
    qed
  qed
qed

lemma test_bodies_leave_spy_alone: "leaves_spy_alone test_bodies"
  by (simp add: leaves_spy_alone_def test_bodies_def)

lemma test_state_constructed: "MojoSpy 0 ''method'' test_heap = Inr test_state"
  by (simp add: MojoSpy_def test_heap_def test_state_def get_member_def Let_def
      reset_def on_def clear_def)

section \<open>Construction\<close>

text \<open>
  Claim C5.  When the member is a function (and the closure about to be created is not
  already in the heap, being new), the constructor succeeds: \<^verbatim>\<open>this.method\<close> and the
  closure's own \<^verbatim>\<open>method\<close> are the former value of the member, the member now holds a
  function other than that value, no other property of any object has changed, and the
  options are those that \<^verbatim>\<open>reset()\<close> gives: recording on, \<^verbatim>\<open>callThru\<close> false, the history
  empty.
\<close>

theorem MojoSpy_installs_the_closure:
  assumes "typeof (get_member h obj name) = ''function''"
    and "get_member h obj name \<noteq> JFun SpyFn"
  shows "\<exists>st. MojoSpy obj name h = Inr st
     \<and> method (self st) = get_member h obj name
     \<and> closure_method st = get_member h obj name
     \<and> object (self st) = obj \<and> methodName (self st) = name
     \<and> get_member (heap st) obj name = JFun SpyFn
     \<and> typeof (get_member (heap st) obj name) = ''function''
     \<and> get_member (heap st) obj name \<noteq> get_member h obj name
     \<and> (\<forall>r k. (r, k) \<noteq> (obj, name) \<longrightarrow> heap st r k = h r k)
     \<and> isRecording (self st) = JBool True
     \<and> callThru (self st) = JBool False
     \<and> callHistory (self st) = Some []
     \<and> reset (self st) = self st"
  using assms
  by (auto simp: MojoSpy_def Let_def reset_def on_def clear_def get_member_def set_member_def)

theorem MojoSpy_installs_the_closure_witness:
  "typeof (get_member test_heap 0 ''method'') = ''function''
   \<and> get_member test_heap 0 ''method'' \<noteq> JFun SpyFn
   \<and> MojoSpy 0 ''method'' test_heap = Inr test_state
   \<and> method (self test_state) = JFun (User 0)
   \<and> get_member (heap test_state) 0 ''method'' = JFun SpyFn
   \<and> isRecording (self test_state) = JBool True
   \<and> callThru (self test_state) = JBool False
   \<and> callHistory (self test_state) = Some []"
proof -
  have a: "typeof (get_member test_heap 0 ''method'') = ''function''"
    and b: "get_member test_heap 0 ''method'' \<noteq> JFun SpyFn"
    by (simp_all add: get_member_def test_heap_def)
  from MojoSpy_installs_the_closure [OF a b] a b show ?thesis
    by (simp add: test_state_constructed) (simp add: test_state_def get_member_def set_member_def)
qed

text \<open>
  Claim C6.  When the member is not a function, the constructor throws the string
  \<^verbatim>\<open>Cannot spy on a non-function!\<close> (the specification's NotCallableError), the heap at
  the throw is the heap it was given, and no instance results.
\<close>

theorem MojoSpy_rejects_a_non_function:
  assumes "typeof (get_member h obj name) \<noteq> ''function''"
  shows "MojoSpy obj name h = Inl (NotCallableError, h)"
  using assms by (simp add: MojoSpy_def Let_def)

theorem MojoSpy_rejects_a_non_function_witness:
  "typeof (get_member test_heap 0 ''missing'') \<noteq> ''function''
   \<and> MojoSpy 0 ''missing'' test_heap
       = Inl (JStr ''Cannot spy on a non-function!'', test_heap)
   \<and> typeof (get_member (heap test_state) 1 ''method'') \<noteq> ''function''
   \<and> MojoSpy 1 ''method'' (heap test_state) = Inl (NotCallableError, heap test_state)"
proof -
  have a: "typeof (get_member test_heap 0 ''missing'') \<noteq> ''function''"
    by (simp add: get_member_def test_heap_def)
  have b: "typeof (get_member (heap test_state) 1 ''method'') \<noteq> ''function''"
    by (simp add: get_member_def test_heap_def test_state_def set_member_def)
  from MojoSpy_rejects_a_non_function [OF a] MojoSpy_rejects_a_non_function [OF b] a b
  show ?thesis by (simp add: NotCallableError_def)
qed

section \<open>The call history\<close>

lemma step_history:
  assumes fr: "leaves_spy_alone B"
    and c: "callThru (self st) \<noteq> JFun SpyFn" and m: "closure_method st \<noteq> JFun SpyFn"
    and x: "x \<noteq> SetCallThru (JFun SpyFn)"
    and h: "callHistory (self st) = Some h"
  shows "\<exists>st'. step B x st = Some st'
           \<and> callHistory (self st') =
               Some (spec_callHistory (truthy (isRecording (self st))) h [x])
           \<and> truthy (isRecording (self st')) =
               (case x of SpyOn \<Rightarrow> True | SpyOff \<Rightarrow> False | SpyReset \<Rightarrow> True
                | _ \<Rightarrow> truthy (isRecording (self st)))
           \<and> callThru (self st') \<noteq> JFun SpyFn \<and> closure_method st' \<noteq> JFun SpyFn"
proof (cases x)
  case (Invoke this args)
  from spy_history_step [OF fr c m h, of this args] c m
  show ?thesis unfolding Invoke by auto
next
  case (SetCallThru v)
  with x c m h show ?thesis by simp
next
  case SpyRetire
  with c m h show ?thesis by (simp add: retire_def Let_def)
qed (use c m h in \<open>simp_all add: on_def off_def clear_def reset_def\<close>)

lemma spec_callHistory_step:
  "spec_callHistory r h (x # xs) =
     spec_callHistory
       (case x of SpyOn \<Rightarrow> True | SpyOff \<Rightarrow> False | SpyReset \<Rightarrow> True | _ \<Rightarrow> r)
       (spec_callHistory r h [x]) xs"
  by (cases x) simp_all

lemma spec_callHistory_grows:
  "SpyClear \<notin> set xs \<Longrightarrow> SpyReset \<notin> set xs \<Longrightarrow> \<exists>t. spec_callHistory r h xs = h @ t"
proof (induction xs arbitrary: r h)
  case Nil
  then show ?case by simp
next
  case (Cons x xs)
  then show ?case
  proof (cases x)
    case (Invoke this args)
    from Cons.IH [of r "if r then h @ [args] else h"] Cons.prems
    show ?thesis unfolding Invoke by (cases r) auto
  qed simp_all
qed

lemma run_history:
  assumes fr: "leaves_spy_alone B"
  shows "callThru (self st) \<noteq> JFun SpyFn \<Longrightarrow> closure_method st \<noteq> JFun SpyFn \<Longrightarrow>
         SetCallThru (JFun SpyFn) \<notin> set xs \<Longrightarrow> callHistory (self st) = Some h \<Longrightarrow>
         \<exists>st'. run B xs st = Some st'
           \<and> callHistory (self st') =
               Some (spec_callHistory (truthy (isRecording (self st))) h xs)"
proof (induction xs arbitrary: st h)
  case Nil
  then show ?case by simp
next
  case (Cons x xs)
  from Cons.prems have x: "x \<noteq> SetCallThru (JFun SpyFn)"
    and xs: "SetCallThru (JFun SpyFn) \<notin> set xs" by auto
  from step_history [OF fr Cons.prems(1,2) x Cons.prems(4)]
  obtain st1 where s: "step B x st = Some st1"
    and h1: "callHistory (self st1) = Some (spec_callHistory (truthy (isRecording (self st))) h [x])"
    and r1: "truthy (isRecording (self st1)) =
               (case x of SpyOn \<Rightarrow> True | SpyOff \<Rightarrow> False | SpyReset \<Rightarrow> True
                | _ \<Rightarrow> truthy (isRecording (self st)))"
    and c1: "callThru (self st1) \<noteq> JFun SpyFn" and m1: "closure_method st1 \<noteq> JFun SpyFn"
    by blast
  from Cons.IH [OF c1 m1 xs h1] obtain st' where "run B xs st1 = Some st'"
    and "callHistory (self st') = Some (spec_callHistory (truthy (isRecording (self st1)))
           (spec_callHistory (truthy (isRecording (self st))) h [x]) xs)"
    by blast
  with s r1 show ?case
    by (simp add: spec_callHistory_step [of _ _ x xs])
qed

text \<open>
  Claim C1.  Take a state in which \<^verbatim>\<open>callHistory\<close> is the array \<open>h\<close>, functions of the
  test author that leave the instance alone, and a closure that is not its own callee.
  Then every intercepted call returns, and afterwards \<^verbatim>\<open>callHistory\<close> is \<open>h\<close> with the
  argument list of the call appended as one entry when \<^verbatim>\<open>isRecording\<close> is truthy, and
  \<open>h\<close> itself when it is not.  After any sequence of calls and operations the history
  is the one the specification describes: the argument lists of the calls made while
  recording was on, oldest first, since the last clear or reset.  Without a clear or a
  reset the former history stays a prefix, so the history is never emptied otherwise.
\<close>

theorem callHistory_follows_the_calls:
  assumes "leaves_spy_alone B"
    and "callThru (self st) \<noteq> JFun SpyFn" and "closure_method st \<noteq> JFun SpyFn"
    and "SetCallThru (JFun SpyFn) \<notin> set xs"
    and "callHistory (self st) = Some h"
  shows "(\<forall>this args. \<exists>r st1. spy B this args st = Some (r, st1)
            \<and> callHistory (self st1) =
                Some (if truthy (isRecording (self st)) then h @ [args] else h))
    \<and> (\<exists>st'. run B xs st = Some st'
           \<and> callHistory (self st') =
               Some (spec_callHistory (truthy (isRecording (self st))) h xs)
           \<and> (SpyClear \<notin> set xs \<and> SpyReset \<notin> set xs \<longrightarrow>
                (\<exists>t. callHistory (self st') = Some (h @ t))))"
proof -
  have one: "\<exists>r st1. spy B this args st = Some (r, st1)
            \<and> callHistory (self st1) =
                Some (if truthy (isRecording (self st)) then h @ [args] else h)" for this args
  proof -
    from spy_history_step [OF assms(1,2,3,5), of this args]
    obtain r st1 where "spy B this args st = Some (r, st1)"
      and "self st1 = (self st)\<lparr>callHistory :=
             Some (if truthy (isRecording (self st)) then h @ [args] else h)\<rparr>"
      by blast
    then show ?thesis by simp
  qed
  from run_history [OF assms] obtain st' where r: "run B xs st = Some st'"
    and h': "callHistory (self st') = Some (spec_callHistory (truthy (isRecording (self st))) h xs)"
    by blast
  have "SpyClear \<notin> set xs \<and> SpyReset \<notin> set xs \<longrightarrow> (\<exists>t. callHistory (self st') = Some (h @ t))"
    using spec_callHistory_grows [of xs "truthy (isRecording (self st))" h] h' by auto
  with r h' one show ?thesis by blast
qed

theorem callHistory_follows_the_calls_witness:
  "leaves_spy_alone test_bodies
   \<and> callThru (self test_state) \<noteq> JFun SpyFn \<and> closure_method test_state \<noteq> JFun SpyFn
   \<and> SetCallThru (JFun SpyFn) \<notin> set test_ops
   \<and> SetCallThru (JFun SpyFn) \<notin> set test_ops_clearing
   \<and> callHistory (self test_state) = Some []
   \<and> SpyClear \<notin> set test_ops \<and> SpyReset \<notin> set test_ops
   \<and> (\<exists>st'. run test_bodies test_ops test_state = Some st'
         \<and> callHistory (self st') = Some [[JNum 1, JNum 2], [], [JNum 4]])
   \<and> (\<exists>st'. run test_bodies test_ops_clearing test_state = Some st'
         \<and> callHistory (self st') = Some [[JStr ''a'', JNull]])"
proof -
  have a: "callThru (self test_state) \<noteq> JFun SpyFn" "closure_method test_state \<noteq> JFun SpyFn"
    "callHistory (self test_state) = Some []" "truthy (isRecording (self test_state))"
    by (simp_all add: test_state_def)
  have b: "SetCallThru (JFun SpyFn) \<notin> set test_ops"
    "SetCallThru (JFun SpyFn) \<notin> set test_ops_clearing"
    "SpyClear \<notin> set test_ops \<and> SpyReset \<notin> set test_ops"
    by (simp_all add: test_ops_def test_ops_clearing_def)
  have c: "spec_callHistory True [] test_ops = [[JNum 1, JNum 2], [], [JNum 4]]"
    "spec_callHistory True [] test_ops_clearing = [[JStr ''a'', JNull]]"
    by (simp_all add: test_ops_def test_ops_clearing_def)
  from callHistory_follows_the_calls [OF test_bodies_leave_spy_alone a(1,2) b(1) a(3)]
  have 1: "\<exists>st'. run test_bodies test_ops test_state = Some st'
         \<and> callHistory (self st') = Some [[JNum 1, JNum 2], [], [JNum 4]]"
    using a(4) c(1) by auto
  from callHistory_follows_the_calls [OF test_bodies_leave_spy_alone a(1,2) b(2) a(3)]
  have 2: "\<exists>st'. run test_bodies test_ops_clearing test_state = Some st'
         \<and> callHistory (self st') = Some [[JStr ''a'', JNull]]"
    using a(4) c(2) by auto
  from 1 2 a b test_bodies_leave_spy_alone show ?thesis by blast
qed

section \<open>Queries and dispatch\<close>

lemma finish_Normal: "finish p = (Normal v, st') \<Longrightarrow> v = JUndefined"
  by (cases p rule: finish.cases) simp_all

lemma args_loop_eq:
  "args_loop callArgs args i =
     JBool (\<forall>j. i \<le> j \<and> j < length args \<longrightarrow> strict_eq (index callArgs j) (index args j))"
proof (induction callArgs args i rule: args_loop.induct)
  case (1 callArgs args i)
  show ?case
  proof (cases "i < length args")
    case False
    then have "args_loop callArgs args i = JBool True"
      by (subst args_loop.simps) simp
    with False show ?thesis by auto
  next
    case True
    show ?thesis
    proof (cases "strict_eq (index callArgs i) (index args i)")
      case False
      with True have "args_loop callArgs args i = JBool False"
        by (subst args_loop.simps) simp
      moreover from True False
      have "\<not> (\<forall>j. i \<le> j \<and> j < length args \<longrightarrow> strict_eq (index callArgs j) (index args j))"
        by auto
      ultimately show ?thesis by simp
    next
      case eq: True
      with True have "args_loop callArgs args i = args_loop callArgs args (i + 1)"
        by (subst args_loop.simps) simp
      also from 1 [OF True] eq
      have "\<dots> = JBool (\<forall>j. i + 1 \<le> j \<and> j < length args \<longrightarrow>
                      strict_eq (index callArgs j) (index args j))"
        by simp
      also have "(\<forall>j. i + 1 \<le> j \<and> j < length args \<longrightarrow>
                      strict_eq (index callArgs j) (index args j))
          = (\<forall>j. i \<le> j \<and> j < length args \<longrightarrow> strict_eq (index callArgs j) (index args j))"
      proof -
        have "\<And>j. i \<le> j \<longleftrightarrow> j = i \<or> i + 1 \<le> j" by auto
        with eq show ?thesis by auto
      qed
      finally show ?thesis .
    qed
  qed
qed

lemma truthy_match_call:
  "truthy (match_call args callArgs) \<longleftrightarrow>
     length callArgs = length args
     \<and> (\<forall>i<length args. strict_eq (callArgs ! i) (args ! i))"
  by (auto simp: match_call_def args_loop_eq index_def)

lemma some_iff: "some p xs \<longleftrightarrow> (\<exists>x\<in>set xs. truthy (p x))"
  by (induction xs) auto

text \<open>
  Claim C3.  With a history present, \<^verbatim>\<open>wasCalled()\<close> without arguments is true exactly
  when the history is not empty, so an entry recorded for a call without arguments
  counts.  \<^verbatim>\<open>wasCalled(e1, ..., eN)\<close> with at least one argument is true exactly when
  some entry of the history has N elements, each \<^verbatim>\<open>===\<close> to the expected element at its
  position (identity of references, not structural equality).  An entry of another
  length or with a differing element does not end the search.
\<close>

theorem wasCalled_searches_the_history:
  assumes "callHistory this = Some history"
  shows "wasCalled [] this = Inr (history \<noteq> [])
    \<and> (args \<noteq> [] \<longrightarrow>
         wasCalled args this =
           Inr (\<exists>callArgs\<in>set history. length callArgs = length args
                  \<and> (\<forall>i<length args. strict_eq (callArgs ! i) (args ! i))))"
  using assms by (simp add: wasCalled_def some_iff truthy_match_call)

theorem wasCalled_searches_the_history_witness:
  "callHistory test_this = Some [[JNum 1, JNum 2, JNum 3], [JNum 4, JNum 5], [], [JNaN]]
   \<and> wasCalled [] test_this = Inr True
   \<and> wasCalled [JNum 4, JNum 5] test_this = Inr True
   \<and> wasCalled [JNum 4] test_this = Inr False
   \<and> wasCalled [JNum 1, JNum 2, JNum 4] test_this = Inr False
   \<and> wasCalled [JNaN] test_this = Inr False"
proof -
  let ?h = "[[JNum 1, JNum 2, JNum 3], [JNum 4, JNum 5], [], [JNaN]]"
  have h: "callHistory test_this = Some ?h" by (simp add: test_this_def)
  have l: "\<And>P. (\<forall>i<Suc (Suc (Suc 0)). P i) \<longleftrightarrow> P 0 \<and> P (Suc 0) \<and> P (Suc (Suc 0))"
    "\<And>P. (\<forall>i<Suc (Suc 0). P i) \<longleftrightarrow> P 0 \<and> P (Suc 0)"
    by (auto simp: less_Suc_eq)
  from wasCalled_searches_the_history [OF h, of "[JNum 4, JNum 5]"]
    wasCalled_searches_the_history [OF h, of "[JNum 4]"]
    wasCalled_searches_the_history [OF h, of "[JNum 1, JNum 2, JNum 4]"]
    wasCalled_searches_the_history [OF h, of "[JNaN]"]
  show ?thesis using h by (simp add: strict_eq_def l)
qed

text \<open>
  Claim C2.  After the recording step, an intercepted call is dispatched by the forward
  mode.  Silent (\<^verbatim>\<open>callThru\<close> is \<^verbatim>\<open>false\<close>): the closure returns at once and no call is
  made.  PassThrough (\<^verbatim>\<open>callThru\<close> is \<^verbatim>\<open>true\<close>): the closure is one application of the
  original method to the same receiver and the same arguments.  Substitute
  (\<^verbatim>\<open>callThru\<close> is the function \<open>f\<close>): the closure is one application of \<open>f\<close> to the same
  receiver and the same arguments.  If the callee makes no calls of its own, the call
  log has gained exactly that one call when the closure ends.
\<close>

theorem dispatch_follows_forward_mode:
  assumes rc: "record_call args st = Inr st1"
  shows "(callThru (self st) = JBool False \<longrightarrow>
            spy B this args st = Some (Normal JUndefined, st1) \<and> calls st1 = calls st)
    \<and> (callThru (self st) = JBool True \<and> closure_method st = JFun (User m) \<longrightarrow>
         spy B this args st = Some (finish (B m this args (note_call (User m) this args st1)))
         \<and> calls (note_call (User m) this args st1) = calls st @ [(User m, this, args)])
    \<and> (callThru (self st) = JFun (User f) \<longrightarrow>
         spy B this args st = Some (finish (B f this args (note_call (User f) this args st1)))
         \<and> calls (note_call (User f) this args st1) = calls st @ [(User f, this, args)])
    \<and> (\<forall>g. (callThru (self st) = JBool True \<and> closure_method st = JFun (User g)
              \<or> callThru (self st) = JFun (User g))
             \<and> calls (snd (B g this args (note_call (User g) this args st1)))
                 = calls (note_call (User g) this args st1) \<longrightarrow>
          (\<exists>r st'. spy B this args st = Some (r, st')
             \<and> calls st' = calls st @ [(User g, this, args)]))"
proof -
  note c = record_call_callThru [OF rc] and m = record_call_closure [OF rc]
    and l = record_call_calls [OF rc]
  have silent: "callThru (self st) = JBool False \<longrightarrow>
            spy B this args st = Some (Normal JUndefined, st1) \<and> calls st1 = calls st"
    using spy_silent [OF rc, of B this] c l by simp
  have thru: "spy B this args st = Some (finish (B g this args (note_call (User g) this args st1)))"
    if "callThru (self st) = JBool True \<and> closure_method st = JFun (User g)" for g
    using spy_calls_user [OF rc, of g B this] that c m by simp
  have subst: "spy B this args st = Some (finish (B g this args (note_call (User g) this args st1)))"
    if "callThru (self st) = JFun (User g)" for g
    using spy_calls_user [OF rc, of g B this] that c by simp
  have noted: "calls (note_call (User g) this args st1) = calls st @ [(User g, this, args)]" for g
    using l by (simp add: note_call_def)
  have once: "\<exists>r st'. spy B this args st = Some (r, st')
             \<and> calls st' = calls st @ [(User g, this, args)]"
    if mode: "callThru (self st) = JBool True \<and> closure_method st = JFun (User g)
              \<or> callThru (self st) = JFun (User g)"
      and leaf: "calls (snd (B g this args (note_call (User g) this args st1)))
                 = calls (note_call (User g) this args st1)" for g
  proof -
    let ?p = "finish (B g this args (note_call (User g) this args st1))"
    from mode thru subst have "spy B this args st = Some ?p" by blast
    moreover from leaf noted have "calls (snd ?p) = calls st @ [(User g, this, args)]"
      by (simp add: snd_finish)
    ultimately show ?thesis by (cases ?p) simp
  qed
  from silent thru subst noted once show ?thesis by blast
qed

theorem dispatch_follows_forward_mode_witness:
  "record_call [JNum 5] test_state
     = Inr (test_state\<lparr>self := (self test_state)\<lparr>callHistory := Some [[JNum 5]]\<rparr>\<rparr>)
   \<and> (\<exists>st'. spy test_bodies (JObj 0) [JNum 5] test_state = Some (Normal JUndefined, st')
         \<and> calls st' = [] \<and> get_member (heap st') 1 ''seen'' = JUndefined)
   \<and> (\<exists>st'. spy test_bodies (JObj 0) [JNum 5]
               (test_state\<lparr>self := (self test_state)\<lparr>callThru := JBool True\<rparr>\<rparr>)
             = Some (Normal JUndefined, st')
         \<and> calls st' = [(User 0, JObj 0, [JNum 5])]
         \<and> get_member (heap st') 1 ''seen'' = JNum 5)
   \<and> (\<exists>st'. spy test_bodies (JObj 0) [JNum 5]
               (test_state\<lparr>self := (self test_state)\<lparr>callThru := JFun (User 1)\<rparr>\<rparr>)
             = Some (Throw (JStr ''boom''), st')
         \<and> calls st' = [(User 1, JObj 0, [JNum 5])]
         \<and> get_member (heap st') 1 ''mocked'' = JObj 0
         \<and> get_member (heap st') 1 ''seen'' = JUndefined)"
proof -
  let ?thru = "test_state\<lparr>self := (self test_state)\<lparr>callThru := JBool True\<rparr>\<rparr>"
  let ?mock = "test_state\<lparr>self := (self test_state)\<lparr>callThru := JFun (User 1)\<rparr>\<rparr>"
  have r0: "record_call [JNum 5] test_state
     = Inr (test_state\<lparr>self := (self test_state)\<lparr>callHistory := Some [[JNum 5]]\<rparr>\<rparr>)"
    by (simp add: record_call_def test_state_def)
  have r1: "record_call [JNum 5] ?thru
     = Inr (?thru\<lparr>self := (self ?thru)\<lparr>callHistory := Some [[JNum 5]]\<rparr>\<rparr>)"
    by (simp add: record_call_def test_state_def)
  have r2: "record_call [JNum 5] ?mock
     = Inr (?mock\<lparr>self := (self ?mock)\<lparr>callHistory := Some [[JNum 5]]\<rparr>\<rparr>)"
    by (simp add: record_call_def test_state_def)
  from dispatch_follows_forward_mode [OF r0, of test_bodies "JObj 0"]
  have s0: "\<exists>st'. spy test_bodies (JObj 0) [JNum 5] test_state = Some (Normal JUndefined, st')
         \<and> calls st' = [] \<and> get_member (heap st') 1 ''seen'' = JUndefined"
    by (simp add: test_state_def get_member_def set_member_def test_heap_def)
  from dispatch_follows_forward_mode [OF r1, of test_bodies "JObj 0" 0]
  have s1: "\<exists>st'. spy test_bodies (JObj 0) [JNum 5] ?thru = Some (Normal JUndefined, st')
         \<and> calls st' = [(User 0, JObj 0, [JNum 5])]
         \<and> get_member (heap st') 1 ''seen'' = JNum 5"
    by (simp add: test_state_def test_bodies_def note_call_def get_member_def set_member_def
        index_def)
  from dispatch_follows_forward_mode [OF r2, of test_bodies "JObj 0" _ 1]
  have s2: "\<exists>st'. spy test_bodies (JObj 0) [JNum 5] ?mock = Some (Throw (JStr ''boom''), st')
         \<and> calls st' = [(User 1, JObj 0, [JNum 5])]
         \<and> get_member (heap st') 1 ''mocked'' = JObj 0
         \<and> get_member (heap st') 1 ''seen'' = JUndefined"
    by (simp add: test_state_def test_bodies_def note_call_def get_member_def set_member_def
        test_heap_def)
  from r0 s0 s1 s2 show ?thesis by blast
qed

section \<open>Retiring\<close>

lemma retire_restores_named_member:
  "methodName (self st) \<noteq> [] \<Longrightarrow> truthy (method (self st)) \<Longrightarrow>
   get_member (heap (retire st)) (object (self st)) (methodName (self st)) = method (self st)
   \<and> method (self (retire st)) = JNull"
  by (simp add: retire_def Let_def get_member_def set_member_def)

lemma retire_again: "retire (retire st) = retire st"
  by (simp add: retire_def Let_def)

lemma call_of_retired_member:
  "methodName (self st) \<noteq> [] \<Longrightarrow> method (self st) = JFun (User f) \<Longrightarrow>
   call_member B (object (self st)) (methodName (self st)) args (retire st)
     = Some (B f (JObj (object (self st))) args (retire st))"
  by (simp add: call_member_def retire_def Let_def get_member_def set_member_def)

text \<open>
  Claim C4, at a member named by the empty string.  The constructor succeeds on
  \<^verbatim>\<open>{ '': func }\<close> and installs the closure.  \<^verbatim>\<open>retire()\<close> then changes nothing, because
  the empty \<^verbatim>\<open>methodName\<close> is falsy: the member still holds the closure and not the
  function captured at construction, \<^verbatim>\<open>this.method\<close> is not cleared, and a further call of
  the member is recorded in \<^verbatim>\<open>callHistory\<close>.
\<close>

theorem retire_skips_the_empty_name:
  "\<exists>st. MojoSpy 0 [] empty_name_heap = Inr st
     \<and> get_member empty_name_heap 0 [] = JFun (User 0)
     \<and> retire st = st
     \<and> get_member (heap (retire st)) 0 [] = JFun SpyFn
     \<and> method (self (retire st)) = JFun (User 0)
     \<and> (\<exists>st'. call_member test_bodies 0 [] [JNum 9] (retire st) = Some (Normal JUndefined, st')
           \<and> callHistory (self st') = Some [[JNum 9]])"
proof -
  define st where "st =
     \<lparr>heap = set_member empty_name_heap 0 [] (JFun SpyFn),
      self = \<lparr>object = 0, methodName = [], method = JFun (User 0),
               isRecording = JBool True, callThru = JBool False, callHistory = Some []\<rparr>,
      closure_method = JFun (User 0), calls = []\<rparr>"
  have m: "get_member empty_name_heap 0 [] = JFun (User 0)"
    by (simp add: get_member_def empty_name_heap_def)
  have c: "MojoSpy 0 [] empty_name_heap = Inr st"
    by (simp add: MojoSpy_def m Let_def reset_def on_def clear_def st_def)
  have r: "retire st = st"
    by (simp add: retire_def Let_def st_def)
  have g: "get_member (heap st) 0 [] = JFun SpyFn"
    by (simp add: st_def get_member_def set_member_def)
  have o: "method (self st) = JFun (User 0)"
    by (simp add: st_def)
  let ?st1 = "st\<lparr>self := (self st)\<lparr>callHistory := Some [[JNum 9]]\<rparr>\<rparr>"
  have rc: "record_call [JNum 9] st = Inr ?st1"
    by (simp add: record_call_def st_def)
  have "spy test_bodies (JObj 0) [JNum 9] st = Some (Normal JUndefined, ?st1)"
    by (rule spy_silent [OF rc]) (simp add: st_def)
  with g have "call_member test_bodies 0 [] [JNum 9] st = Some (Normal JUndefined, ?st1)"
    by (simp add: call_member_def)
  moreover have "callHistory (self ?st1) = Some [[JNum 9]]" by simp
  ultimately have "\<exists>st'. call_member test_bodies 0 [] [JNum 9] st = Some (Normal JUndefined, st')
           \<and> callHistory (self st') = Some [[JNum 9]]"
    by blast
  with c m r g o show ?thesis by auto
qed

section \<open>Errors of the callee\<close>

text \<open>
  Claim C7.  Take an intercepted call whose recording step succeeds and whose callee,
  the original method or the substitute, is the function \<open>f\<close> of the test author, and
  let \<open>f\<close> end in the state \<open>st2\<close>.  If \<open>f\<close> throws \<open>e\<close>, the closure throws the same \<open>e\<close>;
  whether \<open>f\<close> throws or returns, the closure ends in \<open>st2\<close> itself, so it writes nothing
  about the outcome.  The entry of the call was appended before \<open>f\<close> ran, and it is still
  in the history afterwards when \<open>f\<close> has left the instance as it found it.
\<close>

theorem errors_pass_through_the_closure:
  assumes rc: "record_call args st = Inr st1"
    and t: "truthy (callThru (self st))"
    and callee: "(if typeof (callThru (self st)) = ''function'' then callThru (self st)
                  else closure_method st) = JFun (User f)"
    and body: "B f this args (note_call (User f) this args st1) = (r, st2)"
  shows "(\<forall>e. r = Throw e \<longrightarrow> spy B this args st = Some (Throw e, st2))
    \<and> (\<forall>v. r = Normal v \<longrightarrow> spy B this args st = Some (Normal JUndefined, st2))
    \<and> (truthy (isRecording (self st)) \<longrightarrow>
          (\<exists>h. callHistory (self st) = Some h \<and> callHistory (self st1) = Some (h @ [args])
             \<and> (self st2 = self st1 \<longrightarrow>
                  (\<exists>r' st'. spy B this args st = Some (r', st')
                     \<and> callHistory (self st') = Some (h @ [args])))))"
proof -
  note c = record_call_callThru [OF rc] and m = record_call_closure [OF rc]
  from t c have t1: "truthy (callThru (self st1))" by simp
  have callee1: "(if typeof (callThru (self st1)) = ''function'' then callThru (self st1)
                  else closure_method st1) = JFun (User f)"
    unfolding c m by (rule callee)
  from spy_calls_user [OF rc t1 callee1, of B this] body
  have eq: "spy B this args st = Some (finish (r, st2))" by simp
  have thrown: "\<forall>e. r = Throw e \<longrightarrow> spy B this args st = Some (Throw e, st2)"
    using eq by simp
  have returned: "\<forall>v. r = Normal v \<longrightarrow> spy B this args st = Some (Normal JUndefined, st2)"
    using eq by simp
  have kept: "\<exists>h. callHistory (self st) = Some h \<and> callHistory (self st1) = Some (h @ [args])
             \<and> (self st2 = self st1 \<longrightarrow>
                  (\<exists>r' st'. spy B this args st = Some (r', st')
                     \<and> callHistory (self st') = Some (h @ [args])))"
    if rec: "truthy (isRecording (self st))"
  proof -
    from rc rec obtain h where h: "callHistory (self st) = Some h"
      and h1: "callHistory (self st1) = Some (h @ [args])"
      by (auto simp: record_call_def split: option.splits)
    have "\<exists>r' st'. spy B this args st = Some (r', st')
            \<and> callHistory (self st') = Some (h @ [args])" if "self st2 = self st1"
      using eq h1 that by (cases r) simp_all
    with h h1 show ?thesis by blast
  qed
  from thrown returned kept show ?thesis by blast
qed

theorem errors_pass_through_the_closure_witness:
  "record_call [JNum 5] (test_state\<lparr>self := (self test_state)\<lparr>callThru := JFun (User 1)\<rparr>\<rparr>)
     = Inr (test_state\<lparr>self := (self test_state)
              \<lparr>callThru := JFun (User 1), callHistory := Some [[JNum 5]]\<rparr>\<rparr>)
   \<and> (\<exists>st'. spy test_bodies (JObj 0) [JNum 5]
               (test_state\<lparr>self := (self test_state)\<lparr>callThru := JFun (User 1)\<rparr>\<rparr>)
             = Some (Throw (JStr ''boom''), st')
         \<and> callHistory (self st') = Some [[JNum 5]])"
proof -
  let ?st = "test_state\<lparr>self := (self test_state)\<lparr>callThru := JFun (User 1)\<rparr>\<rparr>"
  let ?st1 = "test_state\<lparr>self := (self test_state)
              \<lparr>callThru := JFun (User 1), callHistory := Some [[JNum 5]]\<rparr>\<rparr>"
  let ?st2 = "(note_call (User 1) (JObj 0) [JNum 5] ?st1)
                \<lparr>heap := set_member (heap ?st1) 1 ''mocked'' (JObj 0)\<rparr>"
  have rc: "record_call [JNum 5] ?st = Inr ?st1"
    by (simp add: record_call_def test_state_def)
  have t: "truthy (callThru (self ?st))" by simp
  have callee: "(if typeof (callThru (self ?st)) = ''function'' then callThru (self ?st)
                  else closure_method ?st) = JFun (User 1)" by simp
  have body: "test_bodies 1 (JObj 0) [JNum 5] (note_call (User 1) (JObj 0) [JNum 5] ?st1)
                = (Throw (JStr ''boom''), ?st2)"
    by (simp add: test_bodies_def note_call_def)
  have "spy test_bodies (JObj 0) [JNum 5] ?st = Some (Throw (JStr ''boom''), ?st2)"
    using errors_pass_through_the_closure
      [where B = test_bodies and f = 1 and this = "JObj 0", OF rc t callee body] by simp
  moreover have "callHistory (self ?st2) = Some [[JNum 5]]"
    by (simp add: note_call_def)
  ultimately show ?thesis using rc by blast
qed

section \<open>Clearing\<close>

text \<open>
  Claim C8.  \<^verbatim>\<open>clear()\<close> leaves the instance with an empty history and every other field
  as it was, also when the instance had no history at all; as an operation on the whole
  state it always returns, throws nothing, and changes neither the heap nor the log.
\<close>

theorem clear_only_empties_the_history:
  "callHistory (clear this) = Some []
   \<and> isRecording (clear this) = isRecording this
   \<and> callThru (clear this) = callThru this
   \<and> object (clear this) = object this
   \<and> methodName (clear this) = methodName this
   \<and> method (clear this) = method this
   \<and> (\<exists>st'. step B SpyClear st = Some st'
         \<and> self st' = clear (self st)
         \<and> heap st' = heap st
         \<and> closure_method st' = closure_method st
         \<and> calls st' = calls st)"
  by (simp add: clear_def)

section \<open>The value of a call\<close>

text \<open>
  Claim C9.  In every forward mode, a call of the closure that returns returns
  \<^verbatim>\<open>undefined\<close>.  In particular, when the callee (the original method or the substitute)
  returns the value \<open>w\<close>, the closure returns \<^verbatim>\<open>undefined\<close> and not \<open>w\<close>.
\<close>

theorem closure_returns_undefined:
  "(spy B this args st = Some (Normal v, st') \<longrightarrow> v = JUndefined)
   \<and> (record_call args st = Inr st1 \<and> truthy (callThru (self st))
       \<and> (if typeof (callThru (self st)) = ''function'' then callThru (self st)
           else closure_method st) = JFun (User f)
       \<and> B f this args (note_call (User f) this args st1) = (Normal w, st2)
       \<longrightarrow> spy B this args st = Some (Normal JUndefined, st2))
   \<and> (record_call args st = Inr st1 \<and> \<not> truthy (callThru (self st))
       \<longrightarrow> spy B this args st = Some (Normal JUndefined, st1))"
proof -
  have any: "v = JUndefined" if ret: "spy B this args st = Some (Normal v, st')"
  proof (cases "record_call args st")
    case (Inl e)
    from spy_throws_at_push [OF Inl, of B this] ret show ?thesis by simp
  next
    case (Inr st1)
    show ?thesis
    proof (cases "truthy (callThru (self st1))")
      case False
      from spy_silent [OF Inr False, of B this] ret show ?thesis by simp
    next
      case True
      let ?callee = "if typeof (callThru (self st1)) = ''function'' then callThru (self st1)
                     else closure_method st1"
      show ?thesis
      proof (cases "typeof ?callee = ''function''")
        case False
        then have "typeof (callThru (self st1)) \<noteq> ''function''"
          "typeof (closure_method st1) \<noteq> ''function''"
          by (auto split: if_splits)
        from spy_no_callee [OF Inr True this, of B this] ret show ?thesis by simp
      next
        case fn: True
        then obtain g where g: "?callee = JFun g" by (auto simp: typeof_function)
        show ?thesis
        proof (cases g)
          case (User n)
          with g have "?callee = JFun (User n)" by simp
          from spy_calls_user [OF Inr True this, of B this] ret
          show ?thesis by (auto dest: finish_Normal [OF sym])
        next
          case SpyFn
          with g have "?callee = JFun SpyFn" by simp
          from spy_calls_itself [OF Inr True this, of B this] ret
          obtain p where "finish p = (Normal v, st')"
            by (cases "spy B this args (note_call SpyFn this args st1)") auto
          then show ?thesis by (rule finish_Normal)
        qed
      qed
    qed
  qed
  have discarded: "spy B this args st = Some (Normal JUndefined, st2)"
    if "record_call args st = Inr st1 \<and> truthy (callThru (self st))
       \<and> (if typeof (callThru (self st)) = ''function'' then callThru (self st)
           else closure_method st) = JFun (User f)
       \<and> B f this args (note_call (User f) this args st1) = (Normal w, st2)"
  proof -
    from that have rc: "record_call args st = Inr st1" by blast
    note c = record_call_callThru [OF rc] and m = record_call_closure [OF rc]
    from that c have t1: "truthy (callThru (self st1))" by simp
    from that
    have callee: "(if typeof (callThru (self st)) = ''function'' then callThru (self st)
                    else closure_method st) = JFun (User f)" by blast
    have callee1: "(if typeof (callThru (self st1)) = ''function'' then callThru (self st1)
                    else closure_method st1) = JFun (User f)"
      unfolding c m by (rule callee)
    from spy_calls_user [OF rc t1 callee1, of B this] that show ?thesis by simp
  qed
  have silent: "spy B this args st = Some (Normal JUndefined, st1)"
    if "record_call args st = Inr st1 \<and> \<not> truthy (callThru (self st))"
  proof -
    from that have rc: "record_call args st = Inr st1" by blast
    from spy_silent [OF rc, of B this] record_call_callThru [OF rc] that show ?thesis by simp
  qed
  from any discarded silent show ?thesis by blast
qed

theorem closure_returns_undefined_witness:
  "(\<exists>st'. spy test_bodies (JObj 0) [JNum 5]
             (test_state\<lparr>self := (self test_state)\<lparr>callThru := JBool True\<rparr>\<rparr>)
           = Some (Normal JUndefined, st'))
   \<and> fst (test_bodies 0 (JObj 0) [JNum 5] test_state) = Normal (JNum 7)"
proof -
  let ?st = "test_state\<lparr>self := (self test_state)\<lparr>callThru := JBool True\<rparr>\<rparr>"
  let ?st1 = "test_state\<lparr>self := (self test_state)
              \<lparr>callThru := JBool True, callHistory := Some [[JNum 5]]\<rparr>\<rparr>"
  let ?st2 = "(note_call (User 0) (JObj 0) [JNum 5] ?st1)
                \<lparr>heap := set_member (heap ?st1) 1 ''seen'' (JNum 5)\<rparr>"
  have rc: "record_call [JNum 5] ?st = Inr ?st1"
    by (simp add: record_call_def test_state_def)
  have t: "truthy (callThru (self ?st))" by simp
  have callee: "(if typeof (callThru (self ?st)) = ''function'' then callThru (self ?st)
                  else closure_method ?st) = JFun (User 0)"
    by (simp add: test_state_def)
  have body: "test_bodies 0 (JObj 0) [JNum 5] (note_call (User 0) (JObj 0) [JNum 5] ?st1)
                = (Normal (JNum 7), ?st2)"
    by (simp add: test_bodies_def note_call_def index_def)
  from closure_returns_undefined
    [where B = test_bodies and this = "JObj 0" and args = "[JNum 5]" and st = ?st
       and ?st1.0 = ?st1 and f = 0 and w = "JNum 7" and ?st2.0 = ?st2]
    rc t callee body
  have "spy test_bodies (JObj 0) [JNum 5] ?st = Some (Normal JUndefined, ?st2)" by blast
  then show ?thesis by (simp add: test_bodies_def)
qed

section \<open>The overloaded flag\<close>

lemma falsy_values:
  "\<not> truthy v \<longleftrightarrow> v \<in> {JBool False, JNum 0, JNull, JUndefined, JStr [], JNaN}"
  by (cases v) auto

text \<open>
  Claim C10.  The forward mode is the one field \<^verbatim>\<open>callThru\<close>, read for truthiness and
  type.  Every falsy value (\<^verbatim>\<open>false\<close>, 0, \<^verbatim>\<open>null\<close>, \<^verbatim>\<open>undefined\<close>, the empty string, and
  NaN) is Silent: the closure returns after the recording step.  Every truthy value that
  is not a function is PassThrough: the callee is the original method.  Every function
  is Substitute: the callee is that function, also when it is the closure itself, which
  then calls itself.
\<close>

theorem callThru_is_read_by_truthiness_and_type:
  assumes rc: "record_call args st = Inr st1"
  shows "(\<not> truthy (callThru (self st)) \<longleftrightarrow>
            callThru (self st) \<in> {JBool False, JNum 0, JNull, JUndefined, JStr [], JNaN})
    \<and> (\<not> truthy (callThru (self st)) \<longrightarrow>
          spy B this args st = Some (Normal JUndefined, st1))
    \<and> (truthy (callThru (self st)) \<and> typeof (callThru (self st)) \<noteq> ''function''
        \<and> closure_method st = JFun (User m) \<longrightarrow>
          spy B this args st = Some (finish (B m this args (note_call (User m) this args st1))))
    \<and> (callThru (self st) = JFun (User f) \<longrightarrow>
          spy B this args st = Some (finish (B f this args (note_call (User f) this args st1))))
    \<and> (callThru (self st) = JFun SpyFn \<longrightarrow>
          spy B this args st =
            Option.bind (spy B this args (note_call SpyFn this args st1))
              (\<lambda>r. Some (finish r)))"
proof -
  note c = record_call_callThru [OF rc] and m = record_call_closure [OF rc]
  have silent: "\<not> truthy (callThru (self st)) \<longrightarrow>
          spy B this args st = Some (Normal JUndefined, st1)"
    using spy_silent [OF rc, of B this] c by simp
  have thru: "truthy (callThru (self st)) \<and> typeof (callThru (self st)) \<noteq> ''function''
        \<and> closure_method st = JFun (User m) \<longrightarrow>
          spy B this args st = Some (finish (B m this args (note_call (User m) this args st1)))"
    using spy_calls_user [OF rc, of m B this] c m by simp
  have subst: "callThru (self st) = JFun (User f) \<longrightarrow>
          spy B this args st = Some (finish (B f this args (note_call (User f) this args st1)))"
    using spy_calls_user [OF rc, of f B this] c by simp
  have itself: "callThru (self st) = JFun SpyFn \<longrightarrow>
          spy B this args st =
            Option.bind (spy B this args (note_call SpyFn this args st1))
              (\<lambda>r. Some (finish r))"
    using spy_calls_itself [OF rc, of B this] c by simp
  from falsy_values [of "callThru (self st)"] silent thru subst itself
  show ?thesis by blast
qed

theorem callThru_is_read_by_truthiness_and_type_witness:
  "(\<exists>st'. spy test_bodies (JObj 0) [JNum 5]
             (test_state\<lparr>self := (self test_state)\<lparr>callThru := JStr []\<rparr>\<rparr>)
           = Some (Normal JUndefined, st') \<and> calls st' = [])
   \<and> (\<exists>st'. spy test_bodies (JObj 0) [JNum 5]
             (test_state\<lparr>self := (self test_state)\<lparr>callThru := JNum 1\<rparr>\<rparr>)
           = Some (Normal JUndefined, st') \<and> calls st' = [(User 0, JObj 0, [JNum 5])])
   \<and> (\<exists>st'. spy test_bodies (JObj 0) [JNum 5]
             (test_state\<lparr>self := (self test_state)\<lparr>callThru := JFun (User 2)\<rparr>\<rparr>)
           = Some (Throw (JStr ''boom''), st') \<and> calls st' = [(User 2, JObj 0, [JNum 5])])"
proof -
  let ?a = "test_state\<lparr>self := (self test_state)\<lparr>callThru := JStr []\<rparr>\<rparr>"
  let ?b = "test_state\<lparr>self := (self test_state)\<lparr>callThru := JNum 1\<rparr>\<rparr>"
  let ?c = "test_state\<lparr>self := (self test_state)\<lparr>callThru := JFun (User 2)\<rparr>\<rparr>"
  have ra: "record_call [JNum 5] ?a
     = Inr (?a\<lparr>self := (self ?a)\<lparr>callHistory := Some [[JNum 5]]\<rparr>\<rparr>)"
    by (simp add: record_call_def test_state_def)
  have rb: "record_call [JNum 5] ?b
     = Inr (?b\<lparr>self := (self ?b)\<lparr>callHistory := Some [[JNum 5]]\<rparr>\<rparr>)"
    by (simp add: record_call_def test_state_def)
  have rc: "record_call [JNum 5] ?c
     = Inr (?c\<lparr>self := (self ?c)\<lparr>callHistory := Some [[JNum 5]]\<rparr>\<rparr>)"
    by (simp add: record_call_def test_state_def)
  from callThru_is_read_by_truthiness_and_type
    [where B = test_bodies and this = "JObj 0", OF ra]
  have a: "\<exists>st'. spy test_bodies (JObj 0) [JNum 5] ?a = Some (Normal JUndefined, st')
            \<and> calls st' = []"
    by (simp add: test_state_def)
  from callThru_is_read_by_truthiness_and_type
    [where B = test_bodies and this = "JObj 0" and m = 0, OF rb]
  have b: "\<exists>st'. spy test_bodies (JObj 0) [JNum 5] ?b = Some (Normal JUndefined, st')
            \<and> calls st' = [(User 0, JObj 0, [JNum 5])]"
    by (simp add: test_state_def test_bodies_def note_call_def)
  from callThru_is_read_by_truthiness_and_type
    [where B = test_bodies and this = "JObj 0" and f = 2, OF rc]
  have c: "\<exists>st'. spy test_bodies (JObj 0) [JNum 5] ?c = Some (Throw (JStr ''boom''), st')
            \<and> calls st' = [(User 2, JObj 0, [JNum 5])]"
    by (simp add: test_state_def test_bodies_def note_call_def)
  from a b c show ?thesis by blast
qed

end
